theory Spec2Isabelle
  imports Complex_Main "HOL-Library.Word" "HOL-Library.Multiset"
begin

section \<open>Data model\<close>

text \<open>
  \<^verbatim>\<open>generate_ieee_figures.py\<close> is a script: it loads a JSON document, keeps the list
  under the key \<^verbatim>\<open>results\<close> in the global \<^verbatim>\<open>results\<close>, and computes the series of
  the four panels of figure 1 from it. One entry of that list is a dictionary with the
  keys read by the script. Python floats are idealised as reals; the one place where
  the machine representation decides the value, the integer power of panel D, is
  modelled on 64-bit words.
\<close>

record ResultRecord =
  effective_neurons :: int
  noise_amplitude :: real
  avg_phi :: real
  noise_level :: string

text \<open>
  A value appended to one of the series: a number, or the not-a-number that
  \<^verbatim>\<open>np.mean\<close> and \<^verbatim>\<open>np.std\<close> return (with a warning, not an exception) on an
  empty sequence.
\<close>

datatype npfloat = Num real | NaN

datatype py_exception =
  FileNotFoundError | PermissionError | JSONDecodeError | TypeError | KeyError | ValueError

text \<open>
  The script defines no exception class and has no \<^verbatim>\<open>try\<close>. The constructors record
  where an exception was raised: while loading (lines 28 to 31), while writing an image
  (\<^verbatim>\<open>plt.savefig\<close>), or elsewhere.
\<close>

datatype error =
  DataLoadError py_exception | WriteError py_exception | OtherError py_exception

section \<open>The library functions the script calls\<close>

definition np_mean :: "real list \<Rightarrow> npfloat" where
  "np_mean a = (if a = [] then NaN else Num (sum_list a / real (length a)))"

text \<open>\<^verbatim>\<open>np.std\<close> with its default \<^verbatim>\<open>ddof=0\<close>: \<^verbatim>\<open>sqrt(mean(abs(a - a.mean())**2))\<close>.\<close>

definition np_std :: "real list \<Rightarrow> npfloat" where
  "np_std a =
     (if a = [] then NaN
      else (let m = sum_list a / real (length a)
            in Num (sqrt (sum_list (map (\<lambda>x. \<bar>x - m\<bar> ^ 2) a) / real (length a)))))"

text \<open>
  \<^verbatim>\<open>np.argmax\<close> scans from the left and keeps the first position of the greatest
  value; a not-a-number ends the scan at once and is the answer. On an empty sequence
  it raises \<^verbatim>\<open>ValueError\<close>. The arguments of \<open>argmax_scan\<close> are the rest of the
  sequence, the position of its head, the greatest value so far and its position.
\<close>

fun argmax_scan :: "npfloat list \<Rightarrow> nat \<Rightarrow> real \<Rightarrow> nat \<Rightarrow> nat" where
  "argmax_scan [] i mp max_ind = max_ind"
| "argmax_scan (NaN # ip) i mp max_ind = i"
| "argmax_scan (Num x # ip) i mp max_ind =
     (if \<not> x \<le> mp then argmax_scan ip (Suc i) x i else argmax_scan ip (Suc i) mp max_ind)"

definition np_argmax :: "npfloat list \<Rightarrow> error + nat" where
  "np_argmax a =
     (case a of
        [] \<Rightarrow> Inl (OtherError ValueError)
      | NaN # ip \<Rightarrow> Inr 0
      | Num x # ip \<Rightarrow> Inr (argmax_scan ip 1 x 0))"

section \<open>The variables of figure 1\<close>

record script_state =
  results :: "ResultRecord list"
  phi_by_size :: "npfloat list"
  phi_std_by_size :: "npfloat list"
  max_idx :: nat
  phi_by_noise :: "npfloat list"
  phi_std_by_noise :: "npfloat list"
  optimal_idx :: nat
  quantum_configs :: "(int \<times> string \<times> real) list"
  classical_phi :: "real list"
  quantum_phi :: "real list"
  runtime_cubic :: "real list"
  runtime_exponential :: "real list"

definition script_start :: "ResultRecord list \<Rightarrow> script_state" where
  "script_start rs =
     \<lparr>results = rs, phi_by_size = [], phi_std_by_size = [], max_idx = 0,
      phi_by_noise = [], phi_std_by_noise = [], optimal_idx = 0,
      quantum_configs = [], classical_phi = [], quantum_phi = [],
      runtime_cubic = [], runtime_exponential = []\<rparr>"

subsection \<open>Panel A: the series by system size (lines 43 to 70)\<close>

definition sizes :: "int list" where
  "sizes = [64, 81, 243, 729]"

definition size_results :: "ResultRecord list \<Rightarrow> int \<Rightarrow> real list" where
  "size_results rs sz =
     map avg_phi (filter (\<lambda>r. effective_neurons r = sz \<and> noise_amplitude r > 0) rs)"

fun for_size :: "int list \<Rightarrow> script_state \<Rightarrow> script_state" where
  "for_size [] s = s"
| "for_size (sz # rest) s =
     for_size rest
       (if size_results (results s) sz \<noteq> []
        then s\<lparr>phi_by_size := phi_by_size s @ [np_mean (size_results (results s) sz)],
               phi_std_by_size := phi_std_by_size s @ [np_std (size_results (results s) sz)]\<rparr>
        else s\<lparr>phi_by_size := phi_by_size s @ [Num 0],
               phi_std_by_size := phi_std_by_size s @ [Num 0]\<rparr>)"

definition panel_a :: "script_state \<Rightarrow> error + script_state" where
  "panel_a s =
     (let s1 = for_size sizes (s\<lparr>phi_by_size := [], phi_std_by_size := []\<rparr>)
      in case np_argmax (phi_by_size s1) of
           Inl e \<Rightarrow> Inl e
         | Inr i \<Rightarrow> Inr (s1\<lparr>max_idx := i\<rparr>))"

subsection \<open>Panel B: the series by noise amplitude (lines 79 to 104)\<close>

definition noise_values :: "real list" where
  "noise_values = [0.0, 0.5, 1.0, 2.0, 5.0, 10.0, 20.0]"

definition noise_results :: "ResultRecord list \<Rightarrow> real \<Rightarrow> real list" where
  "noise_results rs noise_amp =
     map avg_phi (filter (\<lambda>r. noise_amplitude r = noise_amp) rs)"

fun for_noise :: "real list \<Rightarrow> script_state \<Rightarrow> script_state" where
  "for_noise [] s = s"
| "for_noise (noise_amp # rest) s =
     for_noise rest
       (s\<lparr>phi_by_noise := phi_by_noise s @ [np_mean (noise_results (results s) noise_amp)],
          phi_std_by_noise :=
            phi_std_by_noise s @ [np_std (noise_results (results s) noise_amp)]\<rparr>)"

definition panel_b :: "script_state \<Rightarrow> error + script_state" where
  "panel_b s =
     (let s1 = for_noise noise_values (s\<lparr>phi_by_noise := [], phi_std_by_noise := []\<rparr>)
      in case np_argmax (phi_by_noise s1) of
           Inl e \<Rightarrow> Inl e
         | Inr i \<Rightarrow> Inr (s1\<lparr>optimal_idx := i\<rparr>))"

subsection \<open>Panel C: measured against classical values (lines 110 to 117)\<close>

text \<open>\<^verbatim>\<open>list.sort\<close> is stable, as \<^const>\<open>sort_key\<close> is.\<close>

definition panel_c :: "script_state \<Rightarrow> script_state" where
  "panel_c s =
     (let qc = sort_key fst
                 (map (\<lambda>r. (effective_neurons r, noise_level r, avg_phi r))
                    (filter (\<lambda>r. noise_amplitude r > 0) (results s)))
      in s\<lparr>quantum_configs := qc,
            classical_phi := replicate (length qc) 0.0,
            quantum_phi := map (\<lambda>c. snd (snd c)) qc\<rparr>)"

subsection \<open>Panel D: the two reference curves (lines 144 to 148)\<close>

text \<open>
  \<^verbatim>\<open>n_range\<close> is an array of 64-bit integers. \<^verbatim>\<open>n_range / 729\<close> is a true division,
  so the cubic curve is computed on floats. \<^verbatim>\<open>2**n_range\<close> is an integer power in
  the element type of the array: it wraps around at 64 bits and is read as a signed
  value before the product with the float \<^verbatim>\<open>0.001\<close>.
\<close>

definition n_range :: "nat list" where
  "n_range = [10, 50, 100, 200, 500, 1000]"

definition cubic_at :: "nat \<Rightarrow> real" where
  "cubic_at n = (real n / 729) ^ 3 * 7044"

definition exponential_at :: "nat \<Rightarrow> real" where
  "exponential_at n = real_of_int (sint ((2 :: 64 word) ^ n)) * 0.001"

definition panel_d :: "script_state \<Rightarrow> script_state" where
  "panel_d s =
     s\<lparr>runtime_cubic := map cubic_at n_range,
       runtime_exponential := map exponential_at n_range\<rparr>"

subsection \<open>Figure 1\<close>

definition figure1 :: "ResultRecord list \<Rightarrow> error + script_state" where
  "figure1 rs =
     (case panel_a (script_start rs) of
        Inl e \<Rightarrow> Inl e
      | Inr sa \<Rightarrow>
          (case panel_b sa of
             Inl e \<Rightarrow> Inl e
           | Inr sb \<Rightarrow> Inr (panel_d (panel_c sb))))"

section \<open>The script on the document as loaded\<close>

















section \<open>The script from start to end\<close>










section \<open>The summary statistics as the specification words them\<close>

definition arithmetic_mean :: "real list \<Rightarrow> real" where
  "arithmetic_mean xs = sum_list xs / real (length xs)"


section \<open>Auxiliary facts\<close>

lemma for_size_results: "results (for_size ks s) = results s"
  by (induction ks arbitrary: s) auto

lemma for_size_phi: "phi_by_size (for_size ks s) = phi_by_size s @
   map (\<lambda>k. if size_results (results s) k \<noteq> [] then np_mean (size_results (results s) k) else Num 0) ks"
  by (induction ks arbitrary: s) (auto simp: for_size_results)

lemma for_size_std: "phi_std_by_size (for_size ks s) = phi_std_by_size s @
   map (\<lambda>k. if size_results (results s) k \<noteq> [] then np_std (size_results (results s) k) else Num 0) ks"
  by (induction ks arbitrary: s) (auto simp: for_size_results)

lemma for_noise_results: "results (for_noise ks s) = results s"
  by (induction ks arbitrary: s) auto

lemma for_noise_phi: "phi_by_noise (for_noise ks s) = phi_by_noise s @
   map (\<lambda>k. np_mean (noise_results (results s) k)) ks"
  by (induction ks arbitrary: s) (auto simp: for_noise_results)

lemma for_noise_std: "phi_std_by_noise (for_noise ks s) = phi_std_by_noise s @
   map (\<lambda>k. np_std (noise_results (results s) k)) ks"
  by (induction ks arbitrary: s) (auto simp: for_noise_results)

lemma np_argmax_nonempty: "a \<noteq> [] \<Longrightarrow> \<exists>i. np_argmax a = Inr i"
  by (cases a) (auto simp: np_argmax_def split: npfloat.splits)

lemma for_size_other:
  "phi_by_noise (for_size ks s) = phi_by_noise s"
  "phi_std_by_noise (for_size ks s) = phi_std_by_noise s"
  by (induction ks arbitrary: s) auto

lemma for_noise_other:
  "phi_by_size (for_noise ks s) = phi_by_size s"
  "phi_std_by_size (for_noise ks s) = phi_std_by_size s"
  "max_idx (for_noise ks s) = max_idx s"
  by (induction ks arbitrary: s) auto

lemma panel_a_run:
  "\<exists>i. panel_a s = Inr ((for_size sizes (s\<lparr>phi_by_size := [], phi_std_by_size := []\<rparr>))\<lparr>max_idx := i\<rparr>)
       \<and> np_argmax (phi_by_size (for_size sizes (s\<lparr>phi_by_size := [], phi_std_by_size := []\<rparr>))) = Inr i"
proof -
  let ?s1 = "for_size sizes (s\<lparr>phi_by_size := [], phi_std_by_size := []\<rparr>)"
  have "phi_by_size ?s1 \<noteq> []" by (simp add: for_size_phi sizes_def)
  then obtain i where "np_argmax (phi_by_size ?s1) = Inr i"
    using np_argmax_nonempty by blast
  then show ?thesis by (simp add: panel_a_def Let_def)
qed

lemma panel_b_run:
  "\<exists>i. panel_b s = Inr ((for_noise noise_values (s\<lparr>phi_by_noise := [], phi_std_by_noise := []\<rparr>))\<lparr>optimal_idx := i\<rparr>)
       \<and> np_argmax (phi_by_noise (for_noise noise_values (s\<lparr>phi_by_noise := [], phi_std_by_noise := []\<rparr>))) = Inr i"
proof -
  let ?s1 = "for_noise noise_values (s\<lparr>phi_by_noise := [], phi_std_by_noise := []\<rparr>)"
  have "phi_by_noise ?s1 \<noteq> []" by (simp add: for_noise_phi noise_values_def)
  then obtain i where "np_argmax (phi_by_noise ?s1) = Inr i"
    using np_argmax_nonempty by blast
  then show ?thesis by (simp add: panel_b_def Let_def)
qed

lemma panel_c_frame:
  "results (panel_c s) = results s"
  "phi_by_size (panel_c s) = phi_by_size s"
  "phi_std_by_size (panel_c s) = phi_std_by_size s"
  "phi_by_noise (panel_c s) = phi_by_noise s"
  "phi_std_by_noise (panel_c s) = phi_std_by_noise s"
  "max_idx (panel_c s) = max_idx s"
  "optimal_idx (panel_c s) = optimal_idx s"
  by (simp_all add: panel_c_def Let_def)

lemma panel_d_frame:
  "results (panel_d s) = results s"
  "phi_by_size (panel_d s) = phi_by_size s"
  "phi_std_by_size (panel_d s) = phi_std_by_size s"
  "phi_by_noise (panel_d s) = phi_by_noise s"
  "phi_std_by_noise (panel_d s) = phi_std_by_noise s"
  "max_idx (panel_d s) = max_idx s"
  "optimal_idx (panel_d s) = optimal_idx s"
  "quantum_configs (panel_d s) = quantum_configs s"
  "classical_phi (panel_d s) = classical_phi s"
  "quantum_phi (panel_d s) = quantum_phi s"
  by (simp_all add: panel_d_def)

text \<open>Figure 1 is always computed, and these are its series.\<close>

lemma figure1_run:
  "\<exists>s. figure1 rs = Inr s \<and> results s = rs
     \<and> phi_by_size s = map (\<lambda>k. if size_results rs k \<noteq> [] then np_mean (size_results rs k) else Num 0) sizes
     \<and> phi_std_by_size s = map (\<lambda>k. if size_results rs k \<noteq> [] then np_std (size_results rs k) else Num 0) sizes
     \<and> phi_by_noise s = map (\<lambda>k. np_mean (noise_results rs k)) noise_values
     \<and> phi_std_by_noise s = map (\<lambda>k. np_std (noise_results rs k)) noise_values
     \<and> np_argmax (phi_by_size s) = Inr (max_idx s)
     \<and> np_argmax (phi_by_noise s) = Inr (optimal_idx s)
     \<and> s = panel_d (panel_c s)"
proof -
  obtain i where a: "panel_a (script_start rs) = Inr ((for_size sizes ((script_start rs)\<lparr>phi_by_size := [], phi_std_by_size := []\<rparr>))\<lparr>max_idx := i\<rparr>)"
    and ai: "np_argmax (phi_by_size (for_size sizes ((script_start rs)\<lparr>phi_by_size := [], phi_std_by_size := []\<rparr>))) = Inr i"
    using panel_a_run by blast
  define sa where "sa = (for_size sizes ((script_start rs)\<lparr>phi_by_size := [], phi_std_by_size := []\<rparr>))\<lparr>max_idx := i\<rparr>"
  obtain j where b: "panel_b sa = Inr ((for_noise noise_values (sa\<lparr>phi_by_noise := [], phi_std_by_noise := []\<rparr>))\<lparr>optimal_idx := j\<rparr>)"
    and bj: "np_argmax (phi_by_noise (for_noise noise_values (sa\<lparr>phi_by_noise := [], phi_std_by_noise := []\<rparr>))) = Inr j"
    using panel_b_run by blast
  define sb where "sb = (for_noise noise_values (sa\<lparr>phi_by_noise := [], phi_std_by_noise := []\<rparr>))\<lparr>optimal_idx := j\<rparr>"
  have f: "figure1 rs = Inr (panel_d (panel_c sb))"
    using a b by (simp add: figure1_def sa_def sb_def)
  have ra: "results sa = rs" by (simp add: sa_def for_size_results script_start_def)
  have rb: "results sb = rs" by (simp add: sb_def for_noise_results ra)
  have pa: "phi_by_size sa = map (\<lambda>k. if size_results rs k \<noteq> [] then np_mean (size_results rs k) else Num 0) sizes"
    by (simp add: sa_def for_size_phi script_start_def)
  have psa: "phi_std_by_size sa = map (\<lambda>k. if size_results rs k \<noteq> [] then np_std (size_results rs k) else Num 0) sizes"
    by (simp add: sa_def for_size_std script_start_def)
  have ma: "np_argmax (phi_by_size sa) = Inr (max_idx sa)"
    using ai by (simp add: sa_def)
  have pb: "phi_by_noise sb = map (\<lambda>k. np_mean (noise_results rs k)) noise_values"
    by (simp add: sb_def for_noise_phi ra)
  have psb: "phi_std_by_noise sb = map (\<lambda>k. np_std (noise_results rs k)) noise_values"
    by (simp add: sb_def for_noise_std ra)
  have mb: "np_argmax (phi_by_noise sb) = Inr (optimal_idx sb)"
    using bj by (simp add: sb_def)
  have keep: "phi_by_size sb = phi_by_size sa" "phi_std_by_size sb = phi_std_by_size sa" "max_idx sb = max_idx sa"
    by (simp_all add: sb_def for_noise_other)
  have idem: "panel_d (panel_c (panel_d (panel_c sb))) = panel_d (panel_c sb)"
    by (simp add: panel_d_def panel_c_def Let_def)
  show ?thesis
    using f ra rb pa psa ma pb psb mb keep idem
    by (simp add: panel_c_frame panel_d_frame)
qed


lemma np_mean_arithmetic: "a \<noteq> [] \<Longrightarrow> np_mean a = Num (arithmetic_mean a)"
  by (simp add: np_mean_def arithmetic_mean_def)






lemma insort_key_map: "insort_key f (g x) (map g ys) = map g (insort_key (\<lambda>a. f (g a)) x ys)"
  by (induction ys) auto

lemma sort_key_map: "sort_key f (map g xs) = map g (sort_key (\<lambda>a. f (g a)) xs)"
  by (induction xs) (auto simp: insort_key_map)

lemma argmax_scan_map_Num:
  "argmax_scan (map Num xs) i mp mi = k \<Longrightarrow>
     (k = mi \<and> (\<forall>x\<in>set xs. x \<le> mp)) \<or>
     (i \<le> k \<and> k < i + length xs \<and> mp < xs ! (k - i) \<and> (\<forall>x\<in>set xs. x \<le> xs ! (k - i))
        \<and> (\<forall>j<k - i. xs ! j < xs ! (k - i)))"
proof (induction xs arbitrary: i mp mi)
  case Nil
  then show ?case by simp
next
  case (Cons x xs)
  show ?case
  proof (cases "x \<le> mp")
    case True
    with Cons.prems have "argmax_scan (map Num xs) (Suc i) mp mi = k" by simp
    from Cons.IH[OF this] consider
      (keep) "k = mi" "\<forall>y\<in>set xs. y \<le> mp"
    | (later) "Suc i \<le> k" "k < Suc i + length xs" "mp < xs ! (k - Suc i)"
        "\<forall>y\<in>set xs. y \<le> xs ! (k - Suc i)" "\<forall>j<k - Suc i. xs ! j < xs ! (k - Suc i)"
      by blast
    then show ?thesis
    proof cases
      case keep
      with True show ?thesis by simp
    next
      case later
      from later(1) obtain d where d: "k - i = Suc d" "k - Suc i = d"
        by (metis Suc_diff_Suc Suc_le_lessD diff_Suc_eq_diff_pred diff_Suc_1)
      have "\<forall>j<Suc d. (x # xs) ! j < xs ! d"
      proof (intro allI impI)
        fix j assume "j < Suc d"
        show "(x # xs) ! j < xs ! d"
        proof (cases j)
          case 0
          with True later(3) d show ?thesis by simp
        next
          case (Suc j')
          with \<open>j < Suc d\<close> later(5) d show ?thesis by simp
        qed
      qed
      with later True d show ?thesis by auto
    qed
  next
    case False
    with Cons.prems have "argmax_scan (map Num xs) (Suc i) x i = k" by simp
    from Cons.IH[OF this] consider
      (keep) "k = i" "\<forall>y\<in>set xs. y \<le> x"
    | (later) "Suc i \<le> k" "k < Suc i + length xs" "x < xs ! (k - Suc i)"
        "\<forall>y\<in>set xs. y \<le> xs ! (k - Suc i)" "\<forall>j<k - Suc i. xs ! j < xs ! (k - Suc i)"
      by blast
    then show ?thesis
    proof cases
      case keep
      with False show ?thesis by simp
    next
      case later
      from later(1) obtain d where d: "k - i = Suc d" "k - Suc i = d"
        by (metis Suc_diff_Suc Suc_le_lessD diff_Suc_eq_diff_pred diff_Suc_1)
      have "\<forall>j<Suc d. (x # xs) ! j < xs ! d"
      proof (intro allI impI)
        fix j assume "j < Suc d"
        show "(x # xs) ! j < xs ! d"
        proof (cases j)
          case 0
          with later(3) d show ?thesis by simp
        next
          case (Suc j')
          with \<open>j < Suc d\<close> later(5) d show ?thesis by simp
        qed
      qed
      with later False d show ?thesis by auto
    qed
  qed
qed

lemma np_argmax_map_Num:
  assumes "np_argmax (map Num xs) = Inr k"
  shows "k < length xs \<and> (\<forall>j<length xs. xs ! j \<le> xs ! k) \<and> (\<forall>j<k. xs ! j < xs ! k)"
proof (cases xs)
  case Nil
  with assms show ?thesis by (simp add: np_argmax_def)
next
  case (Cons x ys)
  with assms have "argmax_scan (map Num ys) 1 x 0 = k" by (simp add: np_argmax_def)
  from argmax_scan_map_Num[OF this] consider
      (keep) "k = 0" "\<forall>y\<in>set ys. y \<le> x"
    | (later) "1 \<le> k" "k < 1 + length ys" "x < ys ! (k - 1)"
        "\<forall>y\<in>set ys. y \<le> ys ! (k - 1)" "\<forall>j<k - 1. ys ! j < ys ! (k - 1)"
    by blast
  then show ?thesis
  proof cases
    case keep
    with Cons show ?thesis by (auto simp: nth_Cons')
  next
    case later
    from later(1) obtain d where d: "k = Suc d" by (cases k) auto
    have a: "\<forall>j<length xs. xs ! j \<le> xs ! k"
    proof (intro allI impI)
      fix j assume "j < length xs"
      then show "xs ! j \<le> xs ! k" using later Cons d by (cases j) auto
    qed
    have b: "\<forall>j<k. xs ! j < xs ! k"
    proof (intro allI impI)
      fix j assume "j < k"
      then show "xs ! j < xs ! k" using later Cons d by (cases j) auto
    qed
    from a b later(2) Cons show ?thesis by simp
  qed
qed

text \<open>The cubic curve passes through the measured point: size 729, 7044 seconds.\<close>

lemma cubic_at_calibration: "cubic_at 729 = 7044"
  by (simp add: cubic_at_def)

text \<open>Below 63 the integer power has not wrapped around.\<close>

lemma exponential_at_small:
  assumes "n < 63"
  shows "exponential_at n = 2 ^ n * 0.001"
proof -
  have lo: "- (2 ^ 63) \<le> (2::int) ^ n"
    by (rule order_trans[of _ 0]) simp_all
  have hi: "(2::int) ^ n < 2 ^ 63"
    using power_strict_increasing[of n 63 "2::int"] assms by simp
  have "sint ((2 :: 64 word) ^ n) = sint (word_of_int (2 ^ n) :: 64 word)"
    by simp
  also have "\<dots> = signed_take_bit (LENGTH(64) - 1) ((2::int) ^ n)"
    by (rule sint_sbintrunc')
  also have "\<dots> = signed_take_bit 63 ((2::int) ^ n)"
    by simp
  also have "\<dots> = 2 ^ n"
    using lo hi by (rule signed_take_bit_int_eq_self)
  finally show ?thesis by (simp add: exponential_at_def)
qed

text \<open>
  When every declared noise amplitude has a record, the index kept for the highlight is
  the first position of the greatest mean.
\<close>

lemma optimal_idx_first_maximum:
  assumes "\<forall>k\<in>set noise_values. noise_results rs k \<noteq> []"
  shows "\<exists>s. figure1 rs = Inr s \<and> optimal_idx s < length noise_values
     \<and> (\<forall>j<length noise_values.
           arithmetic_mean (noise_results rs (noise_values ! j))
             \<le> arithmetic_mean (noise_results rs (noise_values ! optimal_idx s)))
     \<and> (\<forall>j<optimal_idx s.
           arithmetic_mean (noise_results rs (noise_values ! j))
             < arithmetic_mean (noise_results rs (noise_values ! optimal_idx s)))"
proof -
  obtain s where s: "figure1 rs = Inr s"
    and c: "phi_by_noise s = map (\<lambda>k. np_mean (noise_results rs k)) noise_values"
    and m: "np_argmax (phi_by_noise s) = Inr (optimal_idx s)"
    using figure1_run[of rs] by blast
  let ?ms = "map (\<lambda>k. arithmetic_mean (noise_results rs k)) noise_values"
  have "map (\<lambda>k. np_mean (noise_results rs k)) noise_values = map Num ?ms"
    using assms by (simp add: np_mean_arithmetic)
  with c m have "np_argmax (map Num ?ms) = Inr (optimal_idx s)" by simp
  from np_argmax_map_Num[OF this]
  have k: "optimal_idx s < length noise_values"
    and a: "\<forall>j<length ?ms. ?ms ! j \<le> ?ms ! optimal_idx s"
    and b: "\<forall>j<optimal_idx s. ?ms ! j < ?ms ! optimal_idx s"
    by (simp, blast, blast)
  have a': "\<forall>j<length noise_values.
           arithmetic_mean (noise_results rs (noise_values ! j))
             \<le> arithmetic_mean (noise_results rs (noise_values ! optimal_idx s))"
  proof (intro allI impI)
    fix j assume j: "j < length noise_values"
    with a k show "arithmetic_mean (noise_results rs (noise_values ! j))
             \<le> arithmetic_mean (noise_results rs (noise_values ! optimal_idx s))"
      by (metis length_map nth_map)
  qed
  have b': "\<forall>j<optimal_idx s.
           arithmetic_mean (noise_results rs (noise_values ! j))
             < arithmetic_mean (noise_results rs (noise_values ! optimal_idx s))"
  proof (intro allI impI)
    fix j assume j: "j < optimal_idx s"
    then have "j < length noise_values" using k by simp
    with b j k show "arithmetic_mean (noise_results rs (noise_values ! j))
             < arithmetic_mean (noise_results rs (noise_values ! optimal_idx s))"
      by (metis nth_map)
  qed
  from s k a' b' show ?thesis by blast
qed
























section \<open>The claims\<close>

text \<open>
  C1: a group that no record matches yields the summary \<open>(0, 0)\<close> in the aggregation
  by size and in the aggregation by noise amplitude, and each series has the length of
  its key sequence. The loop over the sizes has the guard for an empty selection; the
  loop over the noise amplitudes has none. With one record, of size 64 and amplitude
  0.5, both series of panel A hold 0 at the three sizes without a record, and both
  series of panel B hold a not-a-number at the six amplitudes without a record. The
  lengths are 4 and 7.
\<close>

theorem empty_noise_group_is_nan:
  "\<exists>s. figure1 [\<lparr>effective_neurons = 64, noise_amplitude = 0.5, avg_phi = 0.03,
                  noise_level = ''Low''\<rparr>] = Inr s
     \<and> phi_by_size s = [Num 0.03, Num 0, Num 0, Num 0]
     \<and> phi_std_by_size s = [Num 0, Num 0, Num 0, Num 0]
     \<and> phi_by_noise s = [NaN, Num 0.03, NaN, NaN, NaN, NaN, NaN]
     \<and> phi_std_by_noise s = [NaN, Num 0, NaN, NaN, NaN, NaN, NaN]"
proof -
  let ?rs = "[\<lparr>effective_neurons = 64, noise_amplitude = 0.5, avg_phi = 0.03, noise_level = ''Low''\<rparr>]"
  obtain s where s: "figure1 ?rs = Inr s"
    and a: "phi_by_size s = map (\<lambda>k. if size_results ?rs k \<noteq> [] then np_mean (size_results ?rs k) else Num 0) sizes"
    and b: "phi_std_by_size s = map (\<lambda>k. if size_results ?rs k \<noteq> [] then np_std (size_results ?rs k) else Num 0) sizes"
    and c: "phi_by_noise s = map (\<lambda>k. np_mean (noise_results ?rs k)) noise_values"
    and d: "phi_std_by_noise s = map (\<lambda>k. np_std (noise_results ?rs k)) noise_values"
    using figure1_run[of ?rs] by blast
  have "phi_by_size s = [Num 0.03, Num 0, Num 0, Num 0]"
    unfolding a by (simp add: sizes_def size_results_def np_mean_def)
  moreover have "phi_std_by_size s = [Num 0, Num 0, Num 0, Num 0]"
    unfolding b by (simp add: sizes_def size_results_def np_std_def)
  moreover have "phi_by_noise s = [NaN, Num 0.03, NaN, NaN, NaN, NaN, NaN]"
    unfolding c by (simp add: noise_values_def noise_results_def np_mean_def)
  moreover have "phi_std_by_noise s = [NaN, Num 0, NaN, NaN, NaN, NaN, NaN]"
    unfolding d by (simp add: noise_values_def noise_results_def np_std_def)
  ultimately show ?thesis using s by blast
qed

text \<open>
  C2: a loaded record whose \<open>noise_amplitude\<close> is 0 is left out of the aggregation by
  size (the selection for every size, and so both series of panel A, are the same with
  and without it) and is part of the aggregation by noise level in the group of the key
  \<open>0.0\<close>, the first declared key, where its \<open>avg_phi\<close> stands at its place in file order.
\<close>

theorem zero_noise_record_filtering:
  assumes "noise_amplitude r = 0"
  shows "(\<forall>sz. size_results (rs1 @ r # rs2) sz = size_results (rs1 @ rs2) sz)
     \<and> noise_results (rs1 @ r # rs2) 0.0 = noise_results rs1 0.0 @ avg_phi r # noise_results rs2 0.0
     \<and> noise_values ! 0 = 0.0
     \<and> (\<exists>s s'. figure1 (rs1 @ r # rs2) = Inr s \<and> figure1 (rs1 @ rs2) = Inr s'
           \<and> phi_by_size s = phi_by_size s' \<and> phi_std_by_size s = phi_std_by_size s'
           \<and> phi_by_noise s ! 0 = np_mean (noise_results rs1 0.0 @ avg_phi r # noise_results rs2 0.0)
           \<and> phi_std_by_noise s ! 0 = np_std (noise_results rs1 0.0 @ avg_phi r # noise_results rs2 0.0))"
proof -
  have sz: "size_results (rs1 @ r # rs2) sz = size_results (rs1 @ rs2) sz" for sz
    using assms by (simp add: size_results_def)
  have nz: "noise_results (rs1 @ r # rs2) 0.0 = noise_results rs1 0.0 @ avg_phi r # noise_results rs2 0.0"
    using assms by (simp add: noise_results_def)
  have k0: "noise_values ! 0 = 0.0" by (simp add: noise_values_def)
  obtain s where s: "figure1 (rs1 @ r # rs2) = Inr s"
    and a: "phi_by_size s = map (\<lambda>k. if size_results (rs1 @ r # rs2) k \<noteq> [] then np_mean (size_results (rs1 @ r # rs2) k) else Num 0) sizes"
    and b: "phi_std_by_size s = map (\<lambda>k. if size_results (rs1 @ r # rs2) k \<noteq> [] then np_std (size_results (rs1 @ r # rs2) k) else Num 0) sizes"
    and c: "phi_by_noise s = map (\<lambda>k. np_mean (noise_results (rs1 @ r # rs2) k)) noise_values"
    and d: "phi_std_by_noise s = map (\<lambda>k. np_std (noise_results (rs1 @ r # rs2) k)) noise_values"
    using figure1_run[of "rs1 @ r # rs2"] by blast
  obtain s' where s': "figure1 (rs1 @ rs2) = Inr s'"
    and a': "phi_by_size s' = map (\<lambda>k. if size_results (rs1 @ rs2) k \<noteq> [] then np_mean (size_results (rs1 @ rs2) k) else Num 0) sizes"
    and b': "phi_std_by_size s' = map (\<lambda>k. if size_results (rs1 @ rs2) k \<noteq> [] then np_std (size_results (rs1 @ rs2) k) else Num 0) sizes"
    using figure1_run[of "rs1 @ rs2"] by blast
  have "phi_by_size s = phi_by_size s'" by (simp only: a a' sz)
  moreover have "phi_std_by_size s = phi_std_by_size s'" by (simp only: b b' sz)
  moreover have "phi_by_noise s ! 0 = np_mean (noise_results rs1 0.0 @ avg_phi r # noise_results rs2 0.0)"
    using nz by (simp add: c noise_values_def)
  moreover have "phi_std_by_noise s ! 0 = np_std (noise_results rs1 0.0 @ avg_phi r # noise_results rs2 0.0)"
    using nz by (simp add: d noise_values_def)
  ultimately show ?thesis using sz nz k0 s s' by blast
qed

theorem zero_noise_record_filtering_witness:
  "noise_amplitude \<lparr>effective_neurons = 64, noise_amplitude = 0.0, avg_phi = 0.01, noise_level = ''Baseline''\<rparr> = 0
   \<and> size_results [\<lparr>effective_neurons = 64, noise_amplitude = 0.0, avg_phi = 0.01, noise_level = ''Baseline''\<rparr>,
                    \<lparr>effective_neurons = 64, noise_amplitude = 0.5, avg_phi = 0.03, noise_level = ''Low''\<rparr>] 64 = [0.03]
   \<and> noise_results [\<lparr>effective_neurons = 64, noise_amplitude = 0.0, avg_phi = 0.01, noise_level = ''Baseline''\<rparr>,
                    \<lparr>effective_neurons = 64, noise_amplitude = 0.5, avg_phi = 0.03, noise_level = ''Low''\<rparr>] 0.0 = [0.01]"
  using zero_noise_record_filtering[of
      "\<lparr>effective_neurons = 64, noise_amplitude = 0.0, avg_phi = 0.01, noise_level = ''Baseline''\<rparr>"
      "[]" "[\<lparr>effective_neurons = 64, noise_amplitude = 0.5, avg_phi = 0.03, noise_level = ''Low''\<rparr>]"]
  by (simp add: size_results_def noise_results_def)



text \<open>
  C4: the reference curves of panel D are a cubic curve and an exponential curve given
  by closed formulas. The cubic curve is \<open>(n / 729) ^ 3 * 7044\<close> (see
  \<open>cubic_at_calibration\<close>). The other curve is written \<open>2 ^ n * 0.001\<close>, but the power is
  taken in 64-bit integers: at the sizes 100, 200, 500 and 1000 of \<open>n_range\<close> it has
  wrapped around to 0, whatever the loaded records are. Up to \<open>n = 62\<close> the value is the
  one of the formula (see \<open>exponential_at_small\<close>).
\<close>

theorem exponential_curve_wraps_around:
  "\<exists>s. figure1 rs = Inr s
     \<and> n_range = [10, 50, 100, 200, 500, 1000]
     \<and> runtime_cubic s = map (\<lambda>n. (real n / 729) ^ 3 * 7044) n_range
     \<and> runtime_exponential s = [1.024, 1125899906842.624, 0, 0, 0, 0]
     \<and> runtime_exponential s ! 2 \<noteq> 2 ^ 100 * 0.001"
proof -
  obtain s where s: "figure1 rs = Inr s" and pc: "s = panel_d (panel_c s)"
    using figure1_run[of rs] by blast
  have "runtime_cubic (panel_d (panel_c s)) = map (\<lambda>n. (real n / 729) ^ 3 * 7044) n_range"
    by (simp add: panel_d_def cubic_at_def)
  with pc have c: "runtime_cubic s = map (\<lambda>n. (real n / 729) ^ 3 * 7044) n_range" by simp
  have "runtime_exponential (panel_d (panel_c s)) = [1.024, 1125899906842.624, 0, 0, 0, 0]"
    by (simp add: panel_d_def exponential_at_def n_range_def)
  with pc have e: "runtime_exponential s = [1.024, 1125899906842.624, 0, 0, 0, 0]" by simp
  have "runtime_exponential s ! 2 \<noteq> 2 ^ 100 * 0.001" unfolding e by simp
  moreover have "n_range = [10, 50, 100, 200, 500, 1000]" by (simp add: n_range_def)
  ultimately show ?thesis using s c e by blast
qed

text \<open>
  C5: the two reference curves are functions of the size array alone. Two runs on any
  two record collections produce the same cubic curve and the same exponential curve,
  and panel D computes the same curves from any two states of the script.
\<close>

theorem reference_curves_deterministic:
  "(\<exists>s s'. figure1 rs = Inr s \<and> figure1 rs' = Inr s'
       \<and> runtime_cubic s = map cubic_at n_range \<and> runtime_cubic s' = runtime_cubic s
       \<and> runtime_exponential s = map exponential_at n_range
       \<and> runtime_exponential s' = runtime_exponential s)
   \<and> runtime_cubic (panel_d t) = runtime_cubic (panel_d t')
   \<and> runtime_exponential (panel_d t) = runtime_exponential (panel_d t')"
proof -
  obtain s where s: "figure1 rs = Inr s" and pc: "s = panel_d (panel_c s)"
    using figure1_run[of rs] by blast
  obtain s' where s': "figure1 rs' = Inr s'" and pc': "s' = panel_d (panel_c s')"
    using figure1_run[of rs'] by blast
  have d: "runtime_cubic (panel_d u) = map cubic_at n_range"
    "runtime_exponential (panel_d u) = map exponential_at n_range" for u
    by (simp_all add: panel_d_def)
  have "runtime_cubic s = map cubic_at n_range" "runtime_exponential s = map exponential_at n_range"
    using d[of "panel_c s"] pc by simp_all
  moreover have "runtime_cubic s' = map cubic_at n_range" "runtime_exponential s' = map exponential_at n_range"
    using d[of "panel_c s'"] pc' by simp_all
  ultimately show ?thesis using s s' d by auto
qed




text \<open>
  C7: the summaries of both aggregations are emitted in the order of the declared key
  sequence, \<open>[64, 81, 243, 729]\<close> for the sizes and
  \<open>[0.0, 0.5, 1.0, 2.0, 5.0, 10.0, 20.0]\<close> for the noise amplitudes: the series have
  the lengths 4 and 7, and the \<open>i\<close>-th entry is the summary of the records that carry
  the \<open>i\<close>-th key (for a size, with \<open>noise_amplitude > 0\<close>), wherever those records
  stand in the collection.
\<close>

theorem summaries_in_declared_order:
  "sizes = [64, 81, 243, 729] \<and> noise_values = [0.0, 0.5, 1.0, 2.0, 5.0, 10.0, 20.0] \<and>
   (\<exists>s. figure1 rs = Inr s
      \<and> length (phi_by_size s) = 4 \<and> length (phi_std_by_size s) = 4
      \<and> length (phi_by_noise s) = 7 \<and> length (phi_std_by_noise s) = 7
      \<and> (\<forall>i<4.
            phi_by_size s ! i =
              (if filter (\<lambda>r. effective_neurons r = [64, 81, 243, 729] ! i
                                \<and> noise_amplitude r > 0) rs = []
               then Num 0
               else np_mean (map avg_phi
                      (filter (\<lambda>r. effective_neurons r = [64, 81, 243, 729] ! i
                                \<and> noise_amplitude r > 0) rs)))
          \<and> phi_std_by_size s ! i =
              (if filter (\<lambda>r. effective_neurons r = [64, 81, 243, 729] ! i
                                \<and> noise_amplitude r > 0) rs = []
               then Num 0
               else np_std (map avg_phi
                      (filter (\<lambda>r. effective_neurons r = [64, 81, 243, 729] ! i
                                \<and> noise_amplitude r > 0) rs))))
      \<and> (\<forall>i<7.
            phi_by_noise s ! i =
              np_mean (map avg_phi
                (filter (\<lambda>r. noise_amplitude r = [0.0, 0.5, 1.0, 2.0, 5.0, 10.0, 20.0] ! i) rs))
          \<and> phi_std_by_noise s ! i =
              np_std (map avg_phi
                (filter (\<lambda>r. noise_amplitude r = [0.0, 0.5, 1.0, 2.0, 5.0, 10.0, 20.0] ! i) rs))))"
proof -
  obtain s where s: "figure1 rs = Inr s"
    and a: "phi_by_size s = map (\<lambda>k. if size_results rs k \<noteq> [] then np_mean (size_results rs k) else Num 0) sizes"
    and b: "phi_std_by_size s = map (\<lambda>k. if size_results rs k \<noteq> [] then np_std (size_results rs k) else Num 0) sizes"
    and c: "phi_by_noise s = map (\<lambda>k. np_mean (noise_results rs k)) noise_values"
    and d: "phi_std_by_noise s = map (\<lambda>k. np_std (noise_results rs k)) noise_values"
    using figure1_run[of rs] by blast
  have ks: "sizes = [64, 81, 243, 729]" and kn: "noise_values = [0.0, 0.5, 1.0, 2.0, 5.0, 10.0, 20.0]"
    by (simp_all add: sizes_def noise_values_def)
  have l: "length (phi_by_size s) = 4" "length (phi_std_by_size s) = 4"
    "length (phi_by_noise s) = 7" "length (phi_std_by_noise s) = 7"
    by (simp_all add: a b c d sizes_def noise_values_def)
  have A: "phi_by_size s ! i =
              (if filter (\<lambda>r. effective_neurons r = [64, 81, 243, 729] ! i
                                \<and> noise_amplitude r > 0) rs = []
               then Num 0
               else np_mean (map avg_phi
                      (filter (\<lambda>r. effective_neurons r = [64, 81, 243, 729] ! i
                                \<and> noise_amplitude r > 0) rs)))
          \<and> phi_std_by_size s ! i =
              (if filter (\<lambda>r. effective_neurons r = [64, 81, 243, 729] ! i
                                \<and> noise_amplitude r > 0) rs = []
               then Num 0
               else np_std (map avg_phi
                      (filter (\<lambda>r. effective_neurons r = [64, 81, 243, 729] ! i
                                \<and> noise_amplitude r > 0) rs)))" if "i < 4" for i
  proof -
    from that have "i < length sizes" by (simp add: sizes_def)
    then have "phi_by_size s ! i = (if size_results rs (sizes ! i) \<noteq> [] then np_mean (size_results rs (sizes ! i)) else Num 0)"
      "phi_std_by_size s ! i = (if size_results rs (sizes ! i) \<noteq> [] then np_std (size_results rs (sizes ! i)) else Num 0)"
      by (simp_all add: a b)
    then show ?thesis unfolding ks size_results_def by simp
  qed
  have B: "phi_by_noise s ! i =
              np_mean (map avg_phi
                (filter (\<lambda>r. noise_amplitude r = [0.0, 0.5, 1.0, 2.0, 5.0, 10.0, 20.0] ! i) rs))
          \<and> phi_std_by_noise s ! i =
              np_std (map avg_phi
                (filter (\<lambda>r. noise_amplitude r = [0.0, 0.5, 1.0, 2.0, 5.0, 10.0, 20.0] ! i) rs))" if "i < 7" for i
  proof -
    from that have "i < length noise_values" by (simp add: noise_values_def)
    then have "phi_by_noise s ! i = np_mean (noise_results rs (noise_values ! i))"
      "phi_std_by_noise s ! i = np_std (noise_results rs (noise_values ! i))"
      by (simp_all add: c d)
    then show ?thesis unfolding kn noise_results_def by simp
  qed
  from s ks kn l A B show ?thesis by blast
qed

theorem summaries_in_declared_order_witness:
  "\<exists>s. figure1 [\<lparr>effective_neurons = 729, noise_amplitude = 20.0, avg_phi = 0.07, noise_level = ''MAXIMUM''\<rparr>,
                 \<lparr>effective_neurons = 243, noise_amplitude = 5.0, avg_phi = 0.05, noise_level = ''Very High''\<rparr>,
                 \<lparr>effective_neurons = 64, noise_amplitude = 0.5, avg_phi = 0.02, noise_level = ''Low''\<rparr>,
                 \<lparr>effective_neurons = 81, noise_amplitude = 0.0, avg_phi = 0.01, noise_level = ''Baseline''\<rparr>] = Inr s
      \<and> phi_by_size s ! 0 = Num 0.02 \<and> phi_by_size s ! 1 = Num 0
      \<and> phi_by_size s ! 2 = Num 0.05 \<and> phi_by_size s ! 3 = Num 0.07
      \<and> phi_by_noise s ! 0 = Num 0.01 \<and> phi_by_noise s ! 1 = Num 0.02
      \<and> phi_by_noise s ! 4 = Num 0.05 \<and> phi_by_noise s ! 6 = Num 0.07"
proof -
  let ?rs = "[\<lparr>effective_neurons = 729, noise_amplitude = 20.0, avg_phi = 0.07, noise_level = ''MAXIMUM''\<rparr>,
                 \<lparr>effective_neurons = 243, noise_amplitude = 5.0, avg_phi = 0.05, noise_level = ''Very High''\<rparr>,
                 \<lparr>effective_neurons = 64, noise_amplitude = 0.5, avg_phi = 0.02, noise_level = ''Low''\<rparr>,
                 \<lparr>effective_neurons = 81, noise_amplitude = 0.0, avg_phi = 0.01, noise_level = ''Baseline''\<rparr>]"
  from summaries_in_declared_order[of ?rs] obtain s where s: "figure1 ?rs = Inr s"
    and a: "\<forall>i<4.
            phi_by_size s ! i =
              (if filter (\<lambda>r. effective_neurons r = [64, 81, 243, 729] ! i
                                \<and> noise_amplitude r > 0) ?rs = []
               then Num 0
               else np_mean (map avg_phi
                      (filter (\<lambda>r. effective_neurons r = [64, 81, 243, 729] ! i
                                \<and> noise_amplitude r > 0) ?rs)))
          \<and> phi_std_by_size s ! i =
              (if filter (\<lambda>r. effective_neurons r = [64, 81, 243, 729] ! i
                                \<and> noise_amplitude r > 0) ?rs = []
               then Num 0
               else np_std (map avg_phi
                      (filter (\<lambda>r. effective_neurons r = [64, 81, 243, 729] ! i
                                \<and> noise_amplitude r > 0) ?rs)))"
    and b: "\<forall>i<7.
            phi_by_noise s ! i =
              np_mean (map avg_phi
                (filter (\<lambda>r. noise_amplitude r = [0.0, 0.5, 1.0, 2.0, 5.0, 10.0, 20.0] ! i) ?rs))
          \<and> phi_std_by_noise s ! i =
              np_std (map avg_phi
                (filter (\<lambda>r. noise_amplitude r = [0.0, 0.5, 1.0, 2.0, 5.0, 10.0, 20.0] ! i) ?rs))"
    by blast
  have "phi_by_size s ! 0 = Num 0.02" using a[rule_format, of 0] by (simp add: np_mean_def)
  moreover have "phi_by_size s ! 1 = Num 0" using a[rule_format, of 1] by (simp add: np_mean_def)
  moreover have "phi_by_size s ! 2 = Num 0.05" using a[rule_format, of 2] by (simp add: np_mean_def)
  moreover have "phi_by_size s ! 3 = Num 0.07" using a[rule_format, of 3] by (simp add: np_mean_def)
  moreover have "phi_by_noise s ! 0 = Num 0.01" using b[rule_format, of 0] by (simp add: np_mean_def)
  moreover have "phi_by_noise s ! 1 = Num 0.02" using b[rule_format, of 1] by (simp add: np_mean_def)
  moreover have "phi_by_noise s ! 4 = Num 0.05" using b[rule_format, of 4] by (simp add: np_mean_def)
  moreover have "phi_by_noise s ! 6 = Num 0.07" using b[rule_format, of 6] by (simp add: np_mean_def)
  ultimately show ?thesis using s by blast
qed

text \<open>
  C8: the loaded collection is only read. It is the value of \<open>results\<close> when panel A
  starts, and still its value after panel A, after panel B, after panel C and after
  panel D: every panel aggregates the collection that was loaded.
\<close>

theorem results_read_only:
  "\<exists>sa sb. panel_a (script_start rs) = Inr sa \<and> results (script_start rs) = rs
      \<and> results sa = rs
      \<and> panel_b sa = Inr sb \<and> results sb = rs
      \<and> results (panel_c sb) = rs
      \<and> results (panel_d (panel_c sb)) = rs
      \<and> figure1 rs = Inr (panel_d (panel_c sb))"
proof -
  obtain i where a: "panel_a (script_start rs) = Inr ((for_size sizes ((script_start rs)\<lparr>phi_by_size := [], phi_std_by_size := []\<rparr>))\<lparr>max_idx := i\<rparr>)"
    using panel_a_run by blast
  define sa where "sa = (for_size sizes ((script_start rs)\<lparr>phi_by_size := [], phi_std_by_size := []\<rparr>))\<lparr>max_idx := i\<rparr>"
  obtain j where b: "panel_b sa = Inr ((for_noise noise_values (sa\<lparr>phi_by_noise := [], phi_std_by_noise := []\<rparr>))\<lparr>optimal_idx := j\<rparr>)"
    using panel_b_run by blast
  define sb where "sb = (for_noise noise_values (sa\<lparr>phi_by_noise := [], phi_std_by_noise := []\<rparr>))\<lparr>optimal_idx := j\<rparr>"
  have r0: "results (script_start rs) = rs" by (simp add: script_start_def)
  have ra: "results sa = rs" by (simp add: sa_def for_size_results r0)
  have rb: "results sb = rs" by (simp add: sb_def for_noise_results ra)
  have f: "figure1 rs = Inr (panel_d (panel_c sb))"
    using a b by (simp add: figure1_def sa_def sb_def)
  from a b r0 ra rb f show ?thesis
    by (simp add: sa_def sb_def panel_c_frame panel_d_frame)
qed

text \<open>
  C9: the bar highlighted in panel B is the one of the greatest mean, the earliest one
  among equals. That holds when every noise amplitude has a record (see
  \<open>optimal_idx_first_maximum\<close>). With two records of amplitudes 0.5 and 1.0 and means
  0.03 and 0.05, the amplitude 0.0 has no record, its mean is a not-a-number, and the
  highlighted bar is that one, at index 0, not the bar of the mean 0.05 at index 2.
\<close>

theorem highlight_on_empty_group:
  "\<exists>s. figure1 [\<lparr>effective_neurons = 64, noise_amplitude = 0.5, avg_phi = 0.03,
                  noise_level = ''Low''\<rparr>,
                 \<lparr>effective_neurons = 64, noise_amplitude = 1.0, avg_phi = 0.05,
                  noise_level = ''Medium''\<rparr>] = Inr s
     \<and> phi_by_noise s = [NaN, Num 0.03, Num 0.05, NaN, NaN, NaN, NaN]
     \<and> optimal_idx s = 0"
proof -
  let ?rs = "[\<lparr>effective_neurons = 64, noise_amplitude = 0.5, avg_phi = 0.03, noise_level = ''Low''\<rparr>,
     \<lparr>effective_neurons = 64, noise_amplitude = 1.0, avg_phi = 0.05, noise_level = ''Medium''\<rparr>]"
  obtain s where s: "figure1 ?rs = Inr s"
    and c: "phi_by_noise s = map (\<lambda>k. np_mean (noise_results ?rs k)) noise_values"
    and m: "np_argmax (phi_by_noise s) = Inr (optimal_idx s)"
    using figure1_run[of ?rs] by blast
  have p: "phi_by_noise s = [NaN, Num 0.03, Num 0.05, NaN, NaN, NaN, NaN]"
    unfolding c by (simp add: noise_values_def noise_results_def np_mean_def)
  have "optimal_idx s = 0"
    using m unfolding p by (simp add: np_argmax_def)
  with s p show ?thesis by blast
qed

text \<open>
  C10: in panel C the classical series is 0.0 throughout and as long as the number of
  records with \<open>noise_amplitude > 0\<close>; the quantum series is the \<open>avg_phi\<close> of exactly
  those records, taken in non-decreasing order of \<open>effective_neurons\<close> (records of equal
  size keep their file order); both series have the same length.
\<close>

theorem quantum_and_classical_series:
  "\<exists>s. figure1 rs = Inr s
     \<and> classical_phi s = replicate (length (filter (\<lambda>r. noise_amplitude r > 0) rs)) 0.0
     \<and> length (quantum_phi s) = length (classical_phi s)
     \<and> quantum_phi s =
         map avg_phi (sort_key effective_neurons (filter (\<lambda>r. noise_amplitude r > 0) rs))
     \<and> mset (quantum_phi s) = mset (map avg_phi (filter (\<lambda>r. noise_amplitude r > 0) rs))
     \<and> sorted (map effective_neurons
                 (sort_key effective_neurons (filter (\<lambda>r. noise_amplitude r > 0) rs)))
     \<and> map fst (quantum_configs s) =
         map effective_neurons
           (sort_key effective_neurons (filter (\<lambda>r. noise_amplitude r > 0) rs))
     \<and> map (\<lambda>c. snd (snd c)) (quantum_configs s) = quantum_phi s"
proof -
  obtain s where s: "figure1 rs = Inr s" and r: "results s = rs" and pc: "s = panel_d (panel_c s)"
    using figure1_run[of rs] by blast
  let ?sel = "filter (\<lambda>r. noise_amplitude r > 0) rs"
  have qc: "quantum_configs (panel_c s) =
      map (\<lambda>r. (effective_neurons r, noise_level r, avg_phi r)) (sort_key effective_neurons ?sel)"
    by (simp add: panel_c_def Let_def r sort_key_map)
  have q: "quantum_configs s = map (\<lambda>r. (effective_neurons r, noise_level r, avg_phi r)) (sort_key effective_neurons ?sel)"
    using qc panel_d_frame(8)[of "panel_c s"] pc by simp
  have cl: "classical_phi (panel_c s) = replicate (length ?sel) 0.0"
    by (simp add: panel_c_def Let_def r)
  have c: "classical_phi s = replicate (length ?sel) 0.0"
    using cl panel_d_frame(9)[of "panel_c s"] pc by simp
  have qp: "quantum_phi (panel_c s) = map avg_phi (sort_key effective_neurons ?sel)"
    by (simp add: panel_c_def Let_def r sort_key_map comp_def)
  have p: "quantum_phi s = map avg_phi (sort_key effective_neurons ?sel)"
    using qp panel_d_frame(10)[of "panel_c s"] pc by simp
  have m: "mset (quantum_phi s) = mset (map avg_phi ?sel)"
    by (simp add: p)
  have srt: "sorted (map effective_neurons (sort_key effective_neurons ?sel))"
    by (rule sorted_sort_key)
  have f: "map fst (quantum_configs s) = map effective_neurons (sort_key effective_neurons ?sel)"
    by (simp add: q comp_def)
  have g: "map (\<lambda>c. snd (snd c)) (quantum_configs s) = quantum_phi s"
    by (simp add: q p comp_def)
  have l: "length (quantum_phi s) = length (classical_phi s)"
    by (simp add: p c)
  from s c l p m srt f g show ?thesis by blast
qed

end
